theory Spec2Isabelle
  imports Main "HOL-Library.Word"
begin

section \<open>The Lambda entry point of the RAG application (lambda_handler.py)\<close>

text \<open>
  The module holds one flag (\<^verbatim>\<open>_services_initialized\<close>), two Mangum adapters built when
  the module is loaded, the classifier \<^verbatim>\<open>_is_function_url_event\<close> and the entry point
  \<^verbatim>\<open>handler\<close>. Isabelle identifiers start with a letter, so the leading underscore of the
  Python names is dropped; the names are otherwise those of the source.
\<close>

subsection \<open>Python values\<close>

text \<open>
  The event is a decoded JSON payload: \<^verbatim>\<open>None\<close>, booleans, integers, floats, strings, lists
  and dicts with string keys. A float is its IEEE 754 binary64 bit pattern; the code only
  ever tests it for being zero. A string is a list of 8-bit characters (the UTF-8 bytes of
  the Python string). A dict is an association list read with \<open>map_of\<close>.
\<close>

datatype pyval =
    PNone
  | PBool bool
  | PInt int
  | PFloat "64 word"
  | PStr string
  | PList "pyval list"
  | PDict "(string \<times> pyval) list"

text \<open>Exceptions: the one the module's own code can raise, and any other one.\<close>

datatype py_error = AttributeError | Raised string

text \<open>
  Python's truth test (\<^verbatim>\<open>not stage\<close> is its negation): \<^verbatim>\<open>None\<close>, \<^verbatim>\<open>False\<close>, zero (for a
  float both \<^verbatim>\<open>0.0\<close> and \<^verbatim>\<open>-0.0\<close>) and the empty string, list and dict are false, every
  other value is true.
\<close>

fun truthy :: "pyval \<Rightarrow> bool" where
  "truthy PNone = False"
| "truthy (PBool b) = b"
| "truthy (PInt i) = (i \<noteq> 0)"
| "truthy (PFloat w) = (w \<noteq> 0 \<and> w \<noteq> 0x8000000000000000)"
| "truthy (PStr s) = (s \<noteq> [])"
| "truthy (PList xs) = (xs \<noteq> [])"
| "truthy (PDict kvs) = (kvs \<noteq> [])"

text \<open>
  \<^verbatim>\<open>obj.get(key, default)\<close>: on a dict the value stored under the key, or the default; on
  a value of any other JSON type the attribute \<^verbatim>\<open>get\<close> does not exist and the lookup
  raises \<^verbatim>\<open>AttributeError\<close>.
\<close>

fun py_get :: "pyval \<Rightarrow> string \<Rightarrow> pyval \<Rightarrow> py_error + pyval" where
  "py_get (PDict kvs) key dflt =
     Inr (case map_of kvs key of None \<Rightarrow> dflt | Some v \<Rightarrow> v)"
| "py_get _ key dflt = Inl AttributeError"

subsection \<open>Constants and adapters built at import time\<close>

definition API_GATEWAY_BASE_PATH :: string where
  "API_GATEWAY_BASE_PATH = ''/prod''"

definition FUNCTION_URL_STAGE :: string where
  "FUNCTION_URL_STAGE = ''$default''"

text \<open>
  A Mangum adapter is known to this module by the arguments of its constructor only: the
  \<^verbatim>\<open>lifespan\<close> setting and the optional \<^verbatim>\<open>api_gateway_base_path\<close> (\<open>None\<close> when the argument
  is not given, so that no prefix is configured). Both adapters wrap the same \<^verbatim>\<open>app\<close>.
\<close>

datatype mangum = Mangum (lifespan: string) (api_gateway_base_path: "string option")

definition api_gateway_handler :: mangum where
  "api_gateway_handler = Mangum ''off'' (Some API_GATEWAY_BASE_PATH)"

definition function_url_handler :: mangum where
  "function_url_handler = Mangum ''off'' None"

subsection \<open>State\<close>

text \<open>
  Objects live in a store: \<open>heap\<close> gives the current contents of each object, and the event
  and the context reach the handler as references. \<open>world\<close> is everything else outside the
  module (the services that the setup opens, the application behind the adapters).
\<close>

type_synonym ref = nat

record 'w outside =
  heap :: "ref \<Rightarrow> pyval"
  world :: 'w

text \<open>
  The log of the calls that leave the module, in order: a call of the setup procedure with
  its outcome (\<open>True\<close> when it returned), and a call of an adapter with its arguments. The log
  is not in the Python source; it is what the statements about "invoked exactly once" and
  "invokes exactly the adapter" are about.
\<close>

datatype call = Setup bool | Dispatch mangum ref ref

fun is_setup :: "call \<Rightarrow> bool" where
  "is_setup (Setup ok) = True"
| "is_setup (Dispatch a event context) = False"

record 'w state =
  services_initialized :: bool
  ext :: "'w outside"
  calls :: "call list"

text \<open>
  The collaborators, imported from other modules: \<^verbatim>\<open>initialize_services\<close> of \<^verbatim>\<open>app.main\<close>,
  which returns nothing or raises, and the call of a Mangum adapter, which returns a
  response of any type \<open>'r\<close> or raises. Both may change anything outside the module.
\<close>

record ('w, 'r) collaborators =
  initialize_services :: "'w outside \<Rightarrow> py_error option \<times> 'w outside"
  mangum_call :: "mangum \<Rightarrow> ref \<Rightarrow> ref \<Rightarrow> 'w outside \<Rightarrow> (py_error + 'r) \<times> 'w outside"

subsection \<open>The classifier\<close>

text \<open>
  \<^verbatim>\<open>
  request_context = event.get("requestContext", {})
  stage = request_context.get("stage", "")
  return not stage or stage == FUNCTION_URL_STAGE
  \<close>
  The two defaults are fresh objects that nothing else refers to; the state is returned as
  it was received. Comparing a value with a string by \<^verbatim>\<open>==\<close> is true for an equal string
  and false for a value of any other type.
\<close>

definition is_function_url_event :: "ref \<Rightarrow> 'w state \<Rightarrow> (py_error + bool) \<times> 'w state" where
  "is_function_url_event event s =
     (case py_get (heap (ext s) event) ''requestContext'' (PDict []) of
        Inl e \<Rightarrow> (Inl e, s)
      | Inr request_context \<Rightarrow>
          (case py_get request_context ''stage'' (PStr []) of
             Inl e \<Rightarrow> (Inl e, s)
           | Inr stage \<Rightarrow> (Inr (\<not> truthy stage \<or> stage = PStr FUNCTION_URL_STAGE), s)))"

subsection \<open>The entry point\<close>

text \<open>Calling an adapter: the call is logged and the adapter's effect outside is kept.\<close>

definition call_mangum ::
  "('w, 'r) collaborators \<Rightarrow> mangum \<Rightarrow> ref \<Rightarrow> ref \<Rightarrow> 'w state \<Rightarrow> (py_error + 'r) \<times> 'w state" where
  "call_mangum env adapter event context s =
     (case mangum_call env adapter event context (ext s) of
        (result, x) \<Rightarrow> (result, s\<lparr>ext := x, calls := calls s @ [Dispatch adapter event context]\<rparr>))"

text \<open>
  \<^verbatim>\<open>
  if not _services_initialized:
      logger.info(...)
      initialize_services()
      _services_initialized = True
  if _is_function_url_event(event):
      return _function_url_handler(event, context)
  return _api_gateway_handler(event, context)
  \<close>
  An exception of \<^verbatim>\<open>initialize_services\<close> leaves the function before the assignment to
  the flag. The logging call is not modelled.
\<close>

definition handler ::
  "('w, 'r) collaborators \<Rightarrow> ref \<Rightarrow> ref \<Rightarrow> 'w state \<Rightarrow> (py_error + 'r) \<times> 'w state" where
  "handler env event context s =
     (case (if \<not> services_initialized s then
              (case initialize_services env (ext s) of
                 (Some e, x) \<Rightarrow> (Some e, s\<lparr>ext := x, calls := calls s @ [Setup False]\<rparr>)
               | (None, x) \<Rightarrow>
                   (None, s\<lparr>services_initialized := True, ext := x,
                             calls := calls s @ [Setup True]\<rparr>))
            else (None, s)) of
        (Some e, s1) \<Rightarrow> (Inl e, s1)
      | (None, s1) \<Rightarrow>
          (case is_function_url_event event s1 of
             (Inl e, s2) \<Rightarrow> (Inl e, s2)
           | (Inr is_function_url, s2) \<Rightarrow>
               if is_function_url then call_mangum env function_url_handler event context s2
               else call_mangum env api_gateway_handler event context s2))"

subsection \<open>A process lifetime\<close>

text \<open>
  The module is loaded with the flag false and nothing called yet; the platform then
  invokes the handler on one (event, context) pair after the other, each invocation
  starting in the state the previous one left, whether it returned or raised.
\<close>

definition module_loaded :: "'w outside \<Rightarrow> 'w state" where
  "module_loaded x = \<lparr>services_initialized = False, ext = x, calls = []\<rparr>"

fun invocations :: "('w, 'r) collaborators \<Rightarrow> (ref \<times> ref) list \<Rightarrow> 'w state \<Rightarrow> 'w state" where
  "invocations env [] s = s"
| "invocations env ((event, context) # rest) s =
     invocations env rest (snd (handler env event context s))"

subsection \<open>The stage that the classifier resolves\<close>

text \<open>
  The specification speaks of the resolved value of \<^verbatim>\<open>requestContext.stage\<close>: the value of
  the field, a missing field resolving to the empty string. Written out on the shape of the
  event: there is no resolved value when the event or its \<^verbatim>\<open>requestContext\<close> is not a
  mapping.
\<close>

fun resolved_stage :: "pyval \<Rightarrow> pyval option" where
  "resolved_stage (PDict ev) =
     (case map_of ev ''requestContext'' of
        None \<Rightarrow> Some (PStr [])
      | Some (PDict rc) \<Rightarrow>
          (case map_of rc ''stage'' of None \<Rightarrow> Some (PStr []) | Some v \<Rightarrow> Some v)
      | Some _ \<Rightarrow> None)"
| "resolved_stage _ = None"

text \<open>
  The stage field itself: the value stored at \<^verbatim>\<open>event["requestContext"]["stage"]\<close>, and
  none when the event has no such field, whatever the reason.
\<close>

fun stage_field :: "pyval \<Rightarrow> pyval option" where
  "stage_field (PDict ev) =
     (case map_of ev ''requestContext'' of
        Some (PDict rc) \<Rightarrow> map_of rc ''stage''
      | _ \<Rightarrow> None)"
| "stage_field _ = None"

subsection \<open>Concurrent invocations\<close>

text \<open>
  When the platform runs several invocations in one process at once, each is a thread that
  executes the body of \<^verbatim>\<open>handler\<close>, and the threads share the module's state. A thread
  takes four steps: the test of the flag (line 76); the call of \<^verbatim>\<open>initialize_services\<close>
  (line 78), inside which the thread is from the test until the call returns; the
  assignment to the flag (line 79); and the classification and dispatch (lines 83 to 86).
  The code holds no lock, so another thread may take steps between any two of these.
\<close>

datatype 'r pc = AtGate | InSetup | SetFlag | Route | Finished "py_error + 'r"

record 'r thread =
  t_event :: ref
  t_context :: ref
  pc :: "'r pc"

definition thread_step ::
  "('w, 'r) collaborators \<Rightarrow> 'r thread \<Rightarrow> 'w state \<Rightarrow> 'r thread \<times> 'w state" where
  "thread_step env t s =
     (case pc t of
        AtGate \<Rightarrow>
          if \<not> services_initialized s then (t\<lparr>pc := InSetup\<rparr>, s) else (t\<lparr>pc := Route\<rparr>, s)
      | InSetup \<Rightarrow>
          (case initialize_services env (ext s) of
             (Some e, x) \<Rightarrow>
               (t\<lparr>pc := Finished (Inl e)\<rparr>, s\<lparr>ext := x, calls := calls s @ [Setup False]\<rparr>)
           | (None, x) \<Rightarrow>
               (t\<lparr>pc := SetFlag\<rparr>, s\<lparr>ext := x, calls := calls s @ [Setup True]\<rparr>))
      | SetFlag \<Rightarrow> (t\<lparr>pc := Route\<rparr>, s\<lparr>services_initialized := True\<rparr>)
      | Route \<Rightarrow>
          (case is_function_url_event (t_event t) s of
             (Inl e, s2) \<Rightarrow> (t\<lparr>pc := Finished (Inl e)\<rparr>, s2)
           | (Inr is_function_url, s2) \<Rightarrow>
               (case call_mangum env
                       (if is_function_url then function_url_handler else api_gateway_handler)
                       (t_event t) (t_context t) s2 of
                  (result, s3) \<Rightarrow> (t\<lparr>pc := Finished result\<rparr>, s3)))
      | Finished result \<Rightarrow> (t, s))"

text \<open>A schedule names, step by step, the thread that runs next.\<close>

definition schedule_step ::
  "('w, 'r) collaborators \<Rightarrow> nat \<Rightarrow> 'r thread list \<times> 'w state \<Rightarrow> 'r thread list \<times> 'w state" where
  "schedule_step env i cfg =
     (case cfg of (ts, s) \<Rightarrow>
        if i < length ts then
          (case thread_step env (ts ! i) s of (t, s') \<Rightarrow> (ts[i := t], s'))
        else (ts, s))"

fun run_schedule ::
  "('w, 'r) collaborators \<Rightarrow> nat list \<Rightarrow> 'r thread list \<times> 'w state \<Rightarrow> 'r thread list \<times> 'w state" where
  "run_schedule env [] cfg = cfg"
| "run_schedule env (i # sched) cfg = run_schedule env sched (schedule_step env i cfg)"







subsection \<open>Sample inputs\<close>

text \<open>
  Concrete events, collaborators and states, on which the theorems below are instantiated.
  The events at references 0 to 5 are
  \<^verbatim>\<open>{"requestContext": {"stage": "prod"}}\<close>,
  \<^verbatim>\<open>{"requestContext": {"stage": "$default"}}\<close>,
  \<^verbatim>\<open>{"requestContext": {}}\<close>,
  \<^verbatim>\<open>{"requestContext": None}\<close>,
  \<^verbatim>\<open>{"requestContext": {"stage": 0}}\<close> and an event with stage \<^verbatim>\<open>"prod"\<close> and further
  fields. The world of the samples counts the attempts of the setup; the sample adapter
  answers with its own base path in the body and changes nothing.
\<close>

definition sample_heap :: "ref \<Rightarrow> pyval" where
  "sample_heap r =
     (if r = 0 then PDict [(''requestContext'', PDict [(''stage'', PStr ''prod'')])]
      else if r = 1 then PDict [(''requestContext'', PDict [(''stage'', PStr ''$default'')])]
      else if r = 2 then PDict [(''requestContext'', PDict [])]
      else if r = 3 then PDict [(''requestContext'', PNone)]
      else if r = 4 then PDict [(''requestContext'', PDict [(''stage'', PInt 0)])]
      else if r = 5 then
        PDict [(''rawPath'', PStr ''/prod/query''),
               (''requestContext'',
                  PDict [(''http'', PDict [(''method'', PStr ''POST'')]),
                         (''stage'', PStr ''prod'')])]
      else PNone)"

definition sample_outside :: "nat outside" where
  "sample_outside = \<lparr>heap = sample_heap, world = 0\<rparr>"

definition setup_returns :: "nat outside \<Rightarrow> py_error option \<times> nat outside" where
  "setup_returns x = (None, x\<lparr>world := Suc (world x)\<rparr>)"

definition setup_fails_once :: "nat outside \<Rightarrow> py_error option \<times> nat outside" where
  "setup_fails_once x =
     (if world x = 0 then (Some (Raised ''setup failed''), x\<lparr>world := 1\<rparr>)
      else (None, x\<lparr>world := Suc (world x)\<rparr>))"

definition sample_adapter ::
  "mangum \<Rightarrow> ref \<Rightarrow> ref \<Rightarrow> nat outside \<Rightarrow> (py_error + pyval) \<times> nat outside" where
  "sample_adapter a event ctx x =
     (Inr (PDict [(''statusCode'', PInt 200),
                  (''body'', PStr (case api_gateway_base_path a of None \<Rightarrow> [] | Some p \<Rightarrow> p))]),
      x)"

definition sample_env :: "(nat, pyval) collaborators" where
  "sample_env = \<lparr>initialize_services = setup_returns, mangum_call = sample_adapter\<rparr>"

definition flaky_env :: "(nat, pyval) collaborators" where
  "flaky_env = \<lparr>initialize_services = setup_fails_once, mangum_call = sample_adapter\<rparr>"

definition warm :: "nat state" where
  "warm = \<lparr>services_initialized = True, ext = sample_outside, calls = [Setup True]\<rparr>"


lemmas sample_defs =
  sample_heap_def sample_outside_def setup_returns_def setup_fails_once_def sample_adapter_def
  sample_env_def flaky_env_def warm_def module_loaded_def
  handler_def is_function_url_event_def call_mangum_def
  FUNCTION_URL_STAGE_def API_GATEWAY_BASE_PATH_def api_gateway_handler_def
  function_url_handler_def

section \<open>The classifier\<close>

text \<open>
  The classifier is the decision \<^verbatim>\<open>not stage or stage == "$default"\<close> on the resolved stage,
  and raises \<^verbatim>\<open>AttributeError\<close> where there is none. It returns the state it was given.
\<close>

lemma is_function_url_event_resolved:
  "is_function_url_event event s =
     (case resolved_stage (heap (ext s) event) of
        None \<Rightarrow> (Inl AttributeError, s)
      | Some stage \<Rightarrow> (Inr (\<not> truthy stage \<or> stage = PStr FUNCTION_URL_STAGE), s))"
proof (cases "heap (ext s) event")
  case (PDict ev)
  show ?thesis
  proof (cases "map_of ev ''requestContext''")
    case None
    with PDict show ?thesis
      by (simp add: is_function_url_event_def FUNCTION_URL_STAGE_def)
  next
    case (Some rc)
    with PDict show ?thesis
      by (cases rc) (simp_all add: is_function_url_event_def split: option.split)
  qed
qed (simp_all add: is_function_url_event_def)

lemma is_function_url_event_state: "snd (is_function_url_event event s) = s"
  by (simp add: is_function_url_event_resolved split: option.split)



text \<open>
  Claim C4, as the code has it: on an event that is a mapping, the classifier returns
  \<open>True\<close> when \<^verbatim>\<open>requestContext\<close> is missing; it returns a truth value without raising when
  \<^verbatim>\<open>requestContext\<close> is itself a mapping, \<open>True\<close> when that mapping has no stage; and it
  raises \<^verbatim>\<open>AttributeError\<close> when \<^verbatim>\<open>requestContext\<close> is present and is not a mapping.
\<close>

theorem classifier_total_on_mapping_request_context:
  assumes "heap (ext s) event = PDict ev"
  shows "(map_of ev ''requestContext'' = None \<longrightarrow>
            fst (is_function_url_event event s) = Inr True)
       \<and> (\<forall>rc. map_of ev ''requestContext'' = Some (PDict rc) \<longrightarrow>
            (\<exists>b. fst (is_function_url_event event s) = Inr b)
            \<and> (map_of rc ''stage'' = None \<longrightarrow> fst (is_function_url_event event s) = Inr True))
       \<and> (\<forall>v. map_of ev ''requestContext'' = Some v \<longrightarrow> (\<forall>rc. v \<noteq> PDict rc) \<longrightarrow>
            fst (is_function_url_event event s) = Inl AttributeError)"
proof (intro conjI allI impI)
  fix v assume "map_of ev ''requestContext'' = Some v" "\<forall>rc. v \<noteq> PDict rc"
  with assms show "fst (is_function_url_event event s) = Inl AttributeError"
    by (cases v) (simp_all add: is_function_url_event_def)
qed (use assms in \<open>simp_all add: is_function_url_event_def\<close>)

text \<open>The event \<^verbatim>\<open>{"requestContext": {}}\<close> is classified as function URL.\<close>

theorem classifier_total_on_mapping_request_context_witness:
  "heap (ext warm) 2 = PDict [(''requestContext'', PDict [])]
   \<and> map_of [(''requestContext'', PDict [])] ''requestContext'' = Some (PDict [])
   \<and> map_of ([] :: (string \<times> pyval) list) ''stage'' = None
   \<and> fst (is_function_url_event 2 warm) = Inr True"
proof -
  have h: "heap (ext warm) 2 = PDict [(''requestContext'', PDict [])]"
    by (simp add: warm_def sample_outside_def sample_heap_def)
  show ?thesis
    using h classifier_total_on_mapping_request_context [OF h] by simp
qed

text \<open>
  Claim C4 as stated fails: the event \<^verbatim>\<open>{"requestContext": None}\<close> is a mapping, and the
  classifier raises \<^verbatim>\<open>AttributeError\<close> on it instead of returning \<open>True\<close>.
\<close>

theorem classifier_raises_on_malformed_request_context:
  "heap (ext warm) 3 = PDict [(''requestContext'', PNone)]
   \<and> fst (is_function_url_event 3 warm) = Inl AttributeError"
  by (simp add: warm_def sample_outside_def sample_heap_def is_function_url_event_def)

text \<open>
  Claim C9, as the code has it: the result of the classifier depends only on the stage that
  its two lookups resolve. Two events, in any two states, whose \<^verbatim>\<open>requestContext\<close> is missing
  or a mapping and that have the same resolved stage (a missing stage resolving to the empty
  string) get the same result, whatever else they hold; events that have no resolved stage,
  because the event or its \<^verbatim>\<open>requestContext\<close> is not a mapping, all raise
  \<^verbatim>\<open>AttributeError\<close>. The classifier is a function, so equal inputs give equal results.
\<close>

theorem classify_depends_on_stage_only:
  "(resolved_stage (heap (ext s1) e1) = resolved_stage (heap (ext s2) e2) \<longrightarrow>
      fst (is_function_url_event e1 s1) = fst (is_function_url_event e2 s2))
   \<and> (resolved_stage (heap (ext s1) e1) = None \<longrightarrow>
        fst (is_function_url_event e1 s1) = Inl AttributeError)"
  by (simp add: is_function_url_event_resolved split: option.split)

text \<open>Events 0 and 5 differ in every field but the stage, in states that differ too.\<close>

theorem classify_depends_on_stage_only_witness:
  "heap (ext warm) 0 \<noteq> heap (ext (module_loaded sample_outside)) 5
   \<and> resolved_stage (heap (ext warm) 0) =
       resolved_stage (heap (ext (module_loaded sample_outside)) 5)
   \<and> fst (is_function_url_event 0 warm) =
       fst (is_function_url_event 5 (module_loaded sample_outside))"
proof -
  have h: "resolved_stage (heap (ext warm) 0) =
           resolved_stage (heap (ext (module_loaded sample_outside)) 5)"
    by (simp add: warm_def module_loaded_def sample_outside_def sample_heap_def)
  have "heap (ext warm) 0 \<noteq> heap (ext (module_loaded sample_outside)) 5"
    by (simp add: warm_def module_loaded_def sample_outside_def sample_heap_def)
  with h classify_depends_on_stage_only [of warm 0 "module_loaded sample_outside" 5]
  show ?thesis by blast
qed

text \<open>
  Claim C9 as stated fails: the events \<^verbatim>\<open>{"requestContext": {}}\<close> and
  \<^verbatim>\<open>{"requestContext": None}\<close> both lack the stage field and differ only elsewhere, yet
  the classifier returns \<open>True\<close> on the first and raises \<^verbatim>\<open>AttributeError\<close> on the second.
\<close>

theorem classify_differs_without_stage:
  "stage_field (heap (ext warm) 2) = None
   \<and> stage_field (heap (ext warm) 3) = None
   \<and> fst (is_function_url_event 2 warm) = Inr True
   \<and> fst (is_function_url_event 3 warm) = Inl AttributeError"
  by (simp add: warm_def sample_outside_def sample_heap_def is_function_url_event_def)

text \<open>
  Claim C10: when \<^verbatim>\<open>requestContext.stage\<close> is present and holds a value that Python's truth
  test takes for false, the classifier returns \<open>True\<close>: the test for the empty stage is the
  truth test, not a comparison with the empty string. \<^verbatim>\<open>None\<close>, \<^verbatim>\<open>0\<close>, \<^verbatim>\<open>False\<close>, the empty
  list and the empty dict are such values.
\<close>

theorem classify_falsy_stage:
  assumes "heap (ext s) event = PDict ev"
    and "map_of ev ''requestContext'' = Some (PDict rc)"
    and "map_of rc ''stage'' = Some v"
    and "\<not> truthy v"
  shows "fst (is_function_url_event event s) = Inr True
       \<and> \<not> truthy PNone \<and> \<not> truthy (PInt 0) \<and> \<not> truthy (PBool False)
       \<and> \<not> truthy (PList []) \<and> \<not> truthy (PDict [])"
  using assms by (simp add: is_function_url_event_def)

text \<open>The event \<^verbatim>\<open>{"requestContext": {"stage": 0}}\<close>.\<close>

theorem classify_falsy_stage_witness:
  "heap (ext warm) 4 = PDict [(''requestContext'', PDict [(''stage'', PInt 0)])]
   \<and> \<not> truthy (PInt 0) \<and> PInt 0 \<noteq> PStr ''''
   \<and> fst (is_function_url_event 4 warm) = Inr True"
proof -
  have h: "heap (ext warm) 4 = PDict [(''requestContext'', PDict [(''stage'', PInt 0)])]"
    by (simp add: warm_def sample_outside_def sample_heap_def)
  show ?thesis
    using h classify_falsy_stage [OF h, of "[(''stage'', PInt 0)]" "PInt 0"] by simp
qed

section \<open>The entry point\<close>

subsection \<open>One invocation, case by case\<close>

lemma handler_initialized:
  "services_initialized s \<Longrightarrow>
   handler env event ctx s =
     (case fst (is_function_url_event event s) of
        Inl e \<Rightarrow> (Inl e, s)
      | Inr b \<Rightarrow>
          call_mangum env (if b then function_url_handler else api_gateway_handler)
            event ctx s)"
  by (simp add: handler_def is_function_url_event_resolved split: option.split)

lemma handler_setup_fails:
  "\<not> services_initialized s \<Longrightarrow> initialize_services env (ext s) = (Some e, x) \<Longrightarrow>
   handler env event ctx s = (Inl e, s\<lparr>ext := x, calls := calls s @ [Setup False]\<rparr>)"
  by (simp add: handler_def)

lemma handler_setup_returns:
  "\<not> services_initialized s \<Longrightarrow> initialize_services env (ext s) = (None, x) \<Longrightarrow>
   handler env event ctx s =
     handler env event ctx
       (s\<lparr>services_initialized := True, ext := x, calls := calls s @ [Setup True]\<rparr>)"
  by (simp add: handler_def)

lemma call_mangum_state:
  "snd (call_mangum env a event ctx s) =
     s\<lparr>ext := snd (mangum_call env a event ctx (ext s)),
       calls := calls s @ [Dispatch a event ctx]\<rparr>"
  by (simp add: call_mangum_def split: prod.split)

lemma call_mangum_result:
  "fst (call_mangum env a event ctx s) = fst (mangum_call env a event ctx (ext s))"
  by (simp add: call_mangum_def split: prod.split)

text \<open>
  Once the flag is set, an invocation leaves it set, calls no setup and only adds to the
  log.
\<close>

lemma handler_initialized_keeps:
  assumes "services_initialized s"
  shows "services_initialized (snd (handler env event ctx s))
       \<and> filter is_setup (calls (snd (handler env event ctx s))) = filter is_setup (calls s)
       \<and> (\<exists>ds. calls (snd (handler env event ctx s)) = calls s @ ds)"
  using assms
  by (simp add: handler_initialized call_mangum_state split: sum.split)

text \<open>With the flag not set, the first call that an invocation makes is the setup.\<close>

lemma handler_attempts_setup:
  assumes "\<not> services_initialized s"
  shows "\<exists>ok ds. calls (snd (handler env event ctx s)) = calls s @ Setup ok # ds"
proof -
  obtain r x where init: "initialize_services env (ext s) = (r, x)"
    by (cases "initialize_services env (ext s)")
  show ?thesis
  proof (cases r)
    case None
    let ?s1 = "s\<lparr>services_initialized := True, ext := x, calls := calls s @ [Setup True]\<rparr>"
    obtain ds where "calls (snd (handler env event ctx ?s1)) = calls ?s1 @ ds"
      using handler_initialized_keeps [of ?s1 env event ctx] by auto
    then have "calls (snd (handler env event ctx ?s1)) = calls s @ Setup True # ds"
      by simp
    then show ?thesis
      unfolding handler_setup_returns [OF assms init [unfolded None]] by blast
  next
    case (Some e)
    with assms init show ?thesis by (auto simp: handler_setup_fails)
  qed
qed


text \<open>
  An invocation that gets past the gate, with \<open>x\<close> the outside as the gate leaves it: the
  event is classified there, the adapter that the classification selects is called once on
  the event and the context, and its result and its effect are the handler's.
\<close>

lemma handler_past_gate:
  assumes "services_initialized s \<and> x = ext s
         \<or> \<not> services_initialized s \<and> initialize_services env (ext s) = (None, x)"
    and "fst (is_function_url_event event (s\<lparr>ext := x\<rparr>)) = Inr b"
  shows "fst (handler env event ctx s) =
           fst (mangum_call env (if b then function_url_handler else api_gateway_handler)
                  event ctx x)"
    and "calls (snd (handler env event ctx s)) =
           calls s @ (if services_initialized s then [] else [Setup True])
             @ [Dispatch (if b then function_url_handler else api_gateway_handler) event ctx]"
    and "ext (snd (handler env event ctx s)) =
           snd (mangum_call env (if b then function_url_handler else api_gateway_handler)
                  event ctx x)"
proof -
  let ?a = "if b then function_url_handler else api_gateway_handler"
  let ?s1 = "if services_initialized s then s
             else s\<lparr>services_initialized := True, ext := x, calls := calls s @ [Setup True]\<rparr>"
  have eq: "handler env event ctx s = handler env event ctx ?s1"
    using assms(1) by (auto simp: handler_setup_returns)
  have init1: "services_initialized ?s1" and ext1: "ext ?s1 = x"
    using assms(1) by auto
  have "fst (is_function_url_event event ?s1) = fst (is_function_url_event event (s\<lparr>ext := x\<rparr>))"
    using assms(1) by (auto simp: is_function_url_event_resolved split: option.split)
  with assms(2) have cls: "fst (is_function_url_event event ?s1) = Inr b" by simp
  have run: "handler env event ctx ?s1 = call_mangum env ?a event ctx ?s1"
    using handler_initialized [OF init1, of env event ctx] cls by simp
  show "fst (handler env event ctx s) = fst (mangum_call env ?a event ctx x)"
    unfolding eq run call_mangum_result ext1 ..
  show "calls (snd (handler env event ctx s)) =
          calls s @ (if services_initialized s then [] else [Setup True])
            @ [Dispatch ?a event ctx]"
    unfolding eq run call_mangum_state by simp
  show "ext (snd (handler env event ctx s)) = snd (mangum_call env ?a event ctx x)"
    unfolding eq run call_mangum_state using ext1 by simp
qed

text \<open>What is outside after an invocation is what the collaborators called have left.\<close>

lemma handler_outside:
  "ext (snd (handler env event ctx s)) = ext s
   \<or> ext (snd (handler env event ctx s)) = snd (initialize_services env (ext s))
   \<or> (\<exists>a. ext (snd (handler env event ctx s)) = snd (mangum_call env a event ctx (ext s)))
   \<or> (\<exists>a. ext (snd (handler env event ctx s)) =
          snd (mangum_call env a event ctx (snd (initialize_services env (ext s)))))"
proof -
  obtain r x where init: "initialize_services env (ext s) = (r, x)"
    by (cases "initialize_services env (ext s)")
  show ?thesis
  proof (cases "services_initialized s")
    case True
    then show ?thesis
      by (auto simp: handler_initialized call_mangum_state split: sum.split)
  next
    case False
    show ?thesis
    proof (cases r)
      case None
      let ?s1 = "s\<lparr>services_initialized := True, ext := x, calls := calls s @ [Setup True]\<rparr>"
      have "handler env event ctx s = handler env event ctx ?s1"
        using False init None by (simp add: handler_setup_returns)
      then show ?thesis using init
        by (auto simp: handler_initialized call_mangum_state split: sum.split)
    next
      case (Some e)
      with False init show ?thesis by (simp add: handler_setup_fails)
    qed
  qed
qed

subsection \<open>A sequence of invocations\<close>




subsection \<open>Initialization\<close>



text \<open>
  Claim C2: when the flag is not set and the setup raises, the handler raises the same
  exception, the flag is still not set afterwards, the only call made is the failed setup
  (no adapter is called), and the next invocation, whatever its event, calls the setup
  again before anything else.
\<close>

theorem handler_setup_failure_retries:
  assumes "\<not> services_initialized s"
    and "fst (initialize_services env (ext s)) = Some e"
  shows "fst (handler env event ctx s) = Inl e
       \<and> \<not> services_initialized (snd (handler env event ctx s))
       \<and> calls (snd (handler env event ctx s)) = calls s @ [Setup False]
       \<and> (\<forall>event' ctx'. \<exists>ok ds.
            calls (snd (handler env event' ctx' (snd (handler env event ctx s)))) =
              calls (snd (handler env event ctx s)) @ Setup ok # ds)"
proof -
  obtain x where init: "initialize_services env (ext s) = (Some e, x)"
    using assms(2) by (cases "initialize_services env (ext s)") simp
  have h: "handler env event ctx s = (Inl e, s\<lparr>ext := x, calls := calls s @ [Setup False]\<rparr>)"
    using assms(1) init by (rule handler_setup_fails)
  have flag: "\<not> services_initialized (snd (handler env event ctx s))"
    using h assms(1) by simp
  have retry: "\<exists>ok ds.
      calls (snd (handler env event' ctx' (snd (handler env event ctx s)))) =
        calls (snd (handler env event ctx s)) @ Setup ok # ds" for event' ctx'
    using flag by (rule handler_attempts_setup)
  from h flag retry show ?thesis by simp
qed

text \<open>
  Scenario D of the specification: the setup fails once, then returns. The first
  invocation raises and dispatches nothing; the second calls the setup again and
  dispatches.
\<close>

theorem handler_setup_failure_retries_witness:
  "\<not> services_initialized (module_loaded sample_outside)
   \<and> fst (initialize_services flaky_env (ext (module_loaded sample_outside))) =
       Some (Raised ''setup failed'')
   \<and> fst (handler flaky_env 0 9 (module_loaded sample_outside)) = Inl (Raised ''setup failed'')
   \<and> \<not> services_initialized (snd (handler flaky_env 0 9 (module_loaded sample_outside)))
   \<and> calls (snd (handler flaky_env 0 9 (module_loaded sample_outside))) = [Setup False]
   \<and> calls (invocations flaky_env [(0, 9), (0, 9)] (module_loaded sample_outside)) =
       [Setup False, Setup True, Dispatch api_gateway_handler 0 9]"
proof -
  have h1: "\<not> services_initialized (module_loaded sample_outside)"
    by (simp add: module_loaded_def)
  have h2: "fst (initialize_services flaky_env (ext (module_loaded sample_outside))) =
              Some (Raised ''setup failed'')"
    by (simp add: sample_defs)
  have "calls (invocations flaky_env [(0, 9), (0, 9)] (module_loaded sample_outside)) =
          [Setup False, Setup True, Dispatch api_gateway_handler 0 9]"
    by (simp add: sample_defs)
  moreover have "calls (module_loaded sample_outside) = []"
    by (simp add: module_loaded_def)
  ultimately show ?thesis
    using h1 h2 handler_setup_failure_retries [OF h1 h2, of 0 9] by simp
qed

subsection \<open>Dispatch\<close>



text \<open>
  Claim C6: in an invocation that gets past the gate and classifies its event, what the
  handler returns or raises is what the selected adapter returns or raises on the event
  and the context, unchanged.
\<close>

theorem handler_pass_through:
  assumes "services_initialized s \<and> x = ext s
         \<or> \<not> services_initialized s \<and> initialize_services env (ext s) = (None, x)"
    and "fst (is_function_url_event event (s\<lparr>ext := x\<rparr>)) = Inr b"
  shows "fst (handler env event ctx s) =
           fst (mangum_call env (if b then function_url_handler else api_gateway_handler)
                  event ctx x)"
  using assms by (rule handler_past_gate(1))

text \<open>A cold start on the event of scenario A: the response is the Gateway adapter's.\<close>

theorem handler_pass_through_witness:
  "\<not> services_initialized (module_loaded sample_outside)
   \<and> initialize_services sample_env (ext (module_loaded sample_outside)) =
       (None, sample_outside\<lparr>world := 1\<rparr>)
   \<and> fst (is_function_url_event 0
         ((module_loaded sample_outside)\<lparr>ext := sample_outside\<lparr>world := 1\<rparr>\<rparr>)) = Inr False
   \<and> fst (handler sample_env 0 9 (module_loaded sample_outside)) =
       fst (mangum_call sample_env api_gateway_handler 0 9 (sample_outside\<lparr>world := 1\<rparr>))
   \<and> fst (handler sample_env 0 9 (module_loaded sample_outside)) =
       Inr (PDict [(''statusCode'', PInt 200), (''body'', PStr ''/prod'')])"
proof -
  have g: "services_initialized (module_loaded sample_outside)
             \<and> sample_outside\<lparr>world := 1\<rparr> = ext (module_loaded sample_outside)
         \<or> \<not> services_initialized (module_loaded sample_outside)
           \<and> initialize_services sample_env (ext (module_loaded sample_outside)) =
               (None, sample_outside\<lparr>world := 1\<rparr>)"
    by (simp add: sample_defs)
  have c: "fst (is_function_url_event 0
         ((module_loaded sample_outside)\<lparr>ext := sample_outside\<lparr>world := 1\<rparr>\<rparr>)) = Inr False"
    by (simp add: sample_defs)
  have "fst (mangum_call sample_env api_gateway_handler 0 9 (sample_outside\<lparr>world := 1\<rparr>)) =
          Inr (PDict [(''statusCode'', PInt 200), (''body'', PStr ''/prod'')])"
    by (simp add: sample_defs)
  moreover have "\<not> services_initialized (module_loaded sample_outside)"
    by (simp add: module_loaded_def)
  ultimately show ?thesis
    using g c handler_pass_through [OF g c, of 9] by simp
qed

subsection \<open>Frame\<close>

text \<open>
  Claim C7: the module's own code writes nothing outside itself. The classifier returns
  the state it received; and every property of the outside (the contents of the event, of
  the context and of any other object among them) that the setup and the adapters
  preserve still holds after the handler.
\<close>

theorem handler_frame:
  assumes "\<forall>x. P x \<longrightarrow> P (snd (initialize_services env x))"
    and "\<forall>a e c x. P x \<longrightarrow> P (snd (mangum_call env a e c x))"
    and "P (ext s)"
  shows "P (ext (snd (handler env event ctx s)))
       \<and> snd (is_function_url_event event s) = s"
proof -
  have "P (ext (snd (handler env event ctx s)))"
    using handler_outside [of env event ctx s] assms by metis
  then show ?thesis by (simp add: is_function_url_event_state)
qed

text \<open>
  The sample setup and adapter leave every object as it is, and so does a cold start on
  the event of scenario A.
\<close>

theorem handler_frame_witness:
  "heap (ext (module_loaded sample_outside)) = sample_heap
   \<and> heap (ext (snd (handler sample_env 0 9 (module_loaded sample_outside)))) = sample_heap
   \<and> snd (is_function_url_event 0 (module_loaded sample_outside)) = module_loaded sample_outside"
proof -
  have h1: "\<forall>x. heap x = sample_heap \<longrightarrow>
              heap (snd (initialize_services sample_env x)) = sample_heap"
    by (simp add: sample_env_def setup_returns_def)
  have h2: "\<forall>a e c x. heap x = sample_heap \<longrightarrow>
              heap (snd (mangum_call sample_env a e c x)) = sample_heap"
    by (simp add: sample_env_def sample_adapter_def)
  have h3: "heap (ext (module_loaded sample_outside)) = sample_heap"
    by (simp add: module_loaded_def sample_outside_def)
  show ?thesis
    using h3
      handler_frame [where P = "\<lambda>x. heap x = sample_heap" and env = sample_env
        and s = "module_loaded sample_outside" and event = 0 and ctx = 9, OF h1 h2 h3]
    by simp
qed

section \<open>Concurrent invocations\<close>

subsection \<open>The steps of a thread\<close>

lemma step_AtGate:
  "pc t = AtGate \<Longrightarrow> thread_step env t s =
     (if \<not> services_initialized s then (t\<lparr>pc := InSetup\<rparr>, s) else (t\<lparr>pc := Route\<rparr>, s))"
  by (simp add: thread_step_def)

lemma step_InSetup:
  "pc t = InSetup \<Longrightarrow> thread_step env t s =
     (case initialize_services env (ext s) of
        (Some e, x) \<Rightarrow>
          (t\<lparr>pc := Finished (Inl e)\<rparr>, s\<lparr>ext := x, calls := calls s @ [Setup False]\<rparr>)
      | (None, x) \<Rightarrow>
          (t\<lparr>pc := SetFlag\<rparr>, s\<lparr>ext := x, calls := calls s @ [Setup True]\<rparr>))"
  by (simp add: thread_step_def)

lemma step_SetFlag:
  "pc t = SetFlag \<Longrightarrow> thread_step env t s = (t\<lparr>pc := Route\<rparr>, s\<lparr>services_initialized := True\<rparr>)"
  by (simp add: thread_step_def)

lemma step_Route:
  "pc t = Route \<Longrightarrow> thread_step env t s =
     (case fst (is_function_url_event (t_event t) s) of
        Inl e \<Rightarrow> (t\<lparr>pc := Finished (Inl e)\<rparr>, s)
      | Inr b \<Rightarrow>
          (t\<lparr>pc := Finished (fst (mangum_call env
                 (if b then function_url_handler else api_gateway_handler)
                 (t_event t) (t_context t) (ext s)))\<rparr>,
           s\<lparr>ext := snd (mangum_call env
                 (if b then function_url_handler else api_gateway_handler)
                 (t_event t) (t_context t) (ext s)),
             calls := calls s @ [Dispatch (if b then function_url_handler else api_gateway_handler)
                 (t_event t) (t_context t)]\<rparr>))"
  by (simp add: thread_step_def is_function_url_event_resolved call_mangum_def
      split: option.split prod.split)

lemma step_Finished: "pc t = Finished r \<Longrightarrow> thread_step env t s = (t, s)"
  by (simp add: thread_step_def)

text \<open>A thread that runs alone, from the gate to its end, is one call of \<open>handler\<close>.\<close>

lemma thread_runs_handler:
  "run_schedule env [0, 0, 0, 0] ([\<lparr>t_event = event, t_context = ctx, pc = AtGate\<rparr>], s) =
     ([\<lparr>t_event = event, t_context = ctx, pc = Finished (fst (handler env event ctx s))\<rparr>],
      snd (handler env event ctx s))"
proof (cases "services_initialized s")
  case True
  then show ?thesis
    by (simp add: schedule_step_def step_AtGate step_Route step_Finished handler_initialized
        call_mangum_def split: sum.split prod.split)
next
  case False
  obtain r x where init: "initialize_services env (ext s) = (r, x)"
    by (cases "initialize_services env (ext s)")
  show ?thesis
  proof (cases r)
    case None
    let ?s1 = "s\<lparr>services_initialized := True, ext := x, calls := calls s @ [Setup True]\<rparr>"
    have cls: "fst (is_function_url_event event (s\<lparr>ext := x, calls := calls s @ [Setup True],
                 services_initialized := True\<rparr>)) = fst (is_function_url_event event ?s1)"
      by (simp add: is_function_url_event_resolved split: option.split)
    have "handler env event ctx s = handler env event ctx ?s1"
      using False init None by (simp add: handler_setup_returns)
    then show ?thesis using False init None
      by (simp add: schedule_step_def step_AtGate step_InSetup step_SetFlag step_Route
          handler_initialized call_mangum_def is_function_url_event_resolved
          split: sum.split prod.split option.split)
  next
    case (Some e)
    with False init show ?thesis
      by (simp add: schedule_step_def step_AtGate step_InSetup step_Finished handler_setup_fails)
  qed
qed

subsection \<open>Every dispatch follows a setup that returned\<close>







subsection \<open>Invocations that do not overlap\<close>





subsection \<open>The gate under concurrency\<close>




end
